theory Spec2Isabelle
  imports Complex_Main "HOL-Library.Sublist" "HOL-Library.Multiset"
begin

section \<open>Strings and the host's string primitives\<close>

text \<open>
  A JavaScript string is a sequence of UTF-16 code units; a code unit is modelled as a
  natural number. \<open>ascii\<close> writes an ASCII literal as such a sequence.
\<close>

type_synonym ustring = "nat list"

definition ascii :: "string \<Rightarrow> ustring" where
  "ascii s = map of_char s"

text \<open>
  The regular-expression classes used by the source (no \<open>u\<close> flag, so they test single code
  units): \<open>\w\<close> is \<open>[A-Za-z0-9_]\<close>, and \<open>\s\<close> is ECMAScript's WhiteSpace and LineTerminator
  set, which is also the set removed by \<open>String.prototype.trim\<close>.
\<close>

definition isWordChar :: "nat \<Rightarrow> bool" where
  "isWordChar c \<longleftrightarrow>
     (0x41 \<le> c \<and> c \<le> 0x5A) \<or> (0x61 \<le> c \<and> c \<le> 0x7A) \<or> (0x30 \<le> c \<and> c \<le> 0x39) \<or> c = 0x5F"

definition isSpace :: "nat \<Rightarrow> bool" where
  "isSpace c \<longleftrightarrow>
     (0x09 \<le> c \<and> c \<le> 0x0D) \<or> c = 0x20 \<or> c = 0xA0 \<or> c = 0x1680 \<or>
     (0x2000 \<le> c \<and> c \<le> 0x200A) \<or> c = 0x2028 \<or> c = 0x2029 \<or> c = 0x202F \<or>
     c = 0x205F \<or> c = 0x3000 \<or> c = 0xFEFF"

definition isCombiningMark :: "nat \<Rightarrow> bool" where
  "isCombiningMark c \<longleftrightarrow> 0x300 \<le> c \<and> c \<le> 0x36F"

text \<open>\<open>s.trim()\<close>\<close>

definition trim :: "ustring \<Rightarrow> ustring" where
  "trim s = rev (dropWhile isSpace (rev (dropWhile isSpace s)))"

text \<open>\<open>s.replace(/\s+/g, " ")\<close>: every maximal run of white space becomes one space.\<close>

function collapseSpaces :: "ustring \<Rightarrow> ustring" where
  "collapseSpaces [] = []"
| "collapseSpaces (c # cs) =
     (if isSpace c then 0x20 # collapseSpaces (dropWhile isSpace cs)
      else c # collapseSpaces cs)"
  by pat_completeness auto
termination
  by (relation "measure length") (auto simp: length_dropWhile_le less_Suc_eq_le)

text \<open>\<open>hay.includes(needle)\<close>: \<open>needle\<close> occurs in \<open>hay\<close> as a contiguous run.\<close>

fun includes_s :: "ustring \<Rightarrow> ustring \<Rightarrow> bool" where
  "includes_s [] needle = (needle = [])"
| "includes_s (h # hs) needle = (prefix needle (h # hs) \<or> includes_s hs needle)"

text \<open>
  \<open>toLowerCase()\<close> and \<open>normalize("NFD")\<close> are computed by the JavaScript engine from the
  Unicode character database, which is not part of the repository. Both are parameters of
  the model, collected in a record.
\<close>

record engine =
  toLowerCase :: "ustring \<Rightarrow> ustring"
  normalizeNFD :: "ustring \<Rightarrow> ustring"

section \<open>ProviderIanz56: normalize and findMatch\<close>

text \<open>
  \<open>normalize(s)\<close>. A missing (\<open>undefined\<close>, \<open>null\<close>) argument takes the same early return as the
  empty string, so an absent field is represented by the empty string.
\<close>

definition normalize_s :: "engine \<Rightarrow> ustring \<Rightarrow> ustring" where
  "normalize_s E s =
     (if s = [] then []
      else trim (collapseSpaces
             (filter (\<lambda>c. isWordChar c \<or> isSpace c)
               (filter (\<lambda>c. \<not> isCombiningMark c)
                 (normalizeNFD E (toLowerCase E s))))))"

record entry =
  e_artist :: ustring
  e_title :: ustring
  e_jsonPath :: "ustring option"

definition exactMatch :: "engine \<Rightarrow> ustring \<Rightarrow> ustring \<Rightarrow> entry \<Rightarrow> bool" where
  "exactMatch E normalizedArtist normalizedTitle en =
     (let entryArtist = normalize_s E (e_artist en);
          entryTitle = normalize_s E (e_title en)
      in entryArtist = normalizedArtist \<and> entryTitle = normalizedTitle)"

definition partialMatch :: "engine \<Rightarrow> ustring \<Rightarrow> ustring \<Rightarrow> entry \<Rightarrow> bool" where
  "partialMatch E normalizedArtist normalizedTitle en =
     (let entryArtist = normalize_s E (e_artist en);
          entryTitle = normalize_s E (e_title en)
      in entryArtist \<noteq> [] \<and>
         (includes_s entryArtist normalizedArtist \<or> includes_s normalizedArtist entryArtist) \<and>
         (includes_s entryTitle normalizedTitle \<or> includes_s normalizedTitle entryTitle))"

definition titleOnlyMatch :: "engine \<Rightarrow> ustring \<Rightarrow> entry \<Rightarrow> bool" where
  "titleOnlyMatch E normalizedTitle en =
     (let entryArtist = normalize_s E (e_artist en);
          entryTitle = normalize_s E (e_title en)
      in if entryArtist = []
         then entryTitle = normalizedTitle \<or> includes_s entryTitle normalizedTitle
              \<or> includes_s normalizedTitle entryTitle
         else entryTitle = normalizedTitle)"

definition findMatch :: "engine \<Rightarrow> ustring \<Rightarrow> ustring \<Rightarrow> entry list \<Rightarrow> entry option" where
  "findMatch E artist title index =
     (let normalizedArtist = normalize_s E artist;
          normalizedTitle = normalize_s E title
      in case find (exactMatch E normalizedArtist normalizedTitle) index of
           Some m \<Rightarrow> Some m
         | None \<Rightarrow>
             (case find (partialMatch E normalizedArtist normalizedTitle) index of
                Some m \<Rightarrow> Some m
              | None \<Rightarrow> find (titleOnlyMatch E normalizedTitle) index))"

section \<open>Output data shared by both providers\<close>

text \<open>
  A karaoke word \<open>{ word, time, isBackground, startTime }\<close>; only ProviderApple writes
  \<open>startTime\<close>. A cue, a synced line and an unsynced line are the objects pushed to the
  \<open>karaoke\<close>, \<open>synced\<close> and \<open>unsynced\<close> arrays; \<open>None\<close> stands for a field that is
  \<open>undefined\<close> or not written.
\<close>

record kword =
  kw_word :: ustring
  kw_time :: int
  kw_isBackground :: bool
  kw_startTime :: "int option"

record cue =
  c_startTime :: int
  c_endTime :: int
  c_text :: "kword list"
  c_isBackground :: bool
  c_background :: "kword list option"
  c_originalText :: "ustring option"

record syncedLine =
  s_startTime :: int
  s_endTime :: int
  s_text :: ustring
  s_originalText :: "ustring option"
  s_background :: "kword list"

record unsyncedLine =
  u_text :: ustring

text \<open>\<open>result.unsynced\<close> holds either the provider's plain lines or the synced lines.\<close>

datatype unsyncedField = UnsyncedLines "unsyncedLine list" | SyncedLines "syncedLine list"

record info =
  i_uri :: ustring
  i_title :: ustring
  i_artist :: ustring

record result =
  r_uri :: ustring
  r_provider :: ustring
  r_karaoke :: "cue list option"
  r_synced :: "syncedLine list option"
  r_unsynced :: "unsyncedField option"
  r_copyright :: "ustring option"
  r_error :: "ustring option"

text \<open>An exception value; \<open>Inl\<close> of it is a \<open>throw\<close> (or a rejected promise).\<close>

datatype jsError = Error ustring | TypeError

text \<open>What \<open>fetch\<close> resolves to: the \<open>ok\<close> flag and the outcome of \<open>response.json()\<close>.\<close>

record 'a response =
  resp_ok :: bool
  resp_json :: "jsError + 'a"

section \<open>ProviderApple (payload shape A, times in milliseconds)\<close>

text \<open>
  The payload \<open>{ type, content: [{ timestamp, endtime, text: [word], backgroundText: [word] }] }\<close>
  with words \<open>{ text, timestamp, endtime, duration, part }\<close>. Times are whole milliseconds.
  An absent \<open>part\<close> is \<open>False\<close>; an absent \<open>text\<close> or \<open>backgroundText\<close> array is the empty list,
  as the source reads both through \<open>|| []\<close> or a length test; an absent \<open>type\<close> or \<open>content\<close>
  is \<open>None\<close>. A word always has its \<open>text\<close>.
\<close>

record wordA =
  a_text :: ustring
  a_timestamp :: int
  a_endtime :: int
  a_duration :: int
  a_part :: bool

record lineA =
  la_timestamp :: int
  la_endtime :: int
  la_text :: "wordA list"
  la_backgroundText :: "wordA list"

record payloadA =
  pa_type :: "ustring option"
  pa_content :: "lineA list option"

text \<open>
  \<open>processWords\<close> of \<open>parseJSON\<close>: the \<open>forEach\<close> loop with its mutable \<open>currentTime\<close> is a
  recursion that passes the cursor on.
\<close>

fun processWordsA :: "wordA list \<Rightarrow> int \<Rightarrow> bool \<Rightarrow> kword list" where
  "processWordsA [] currentTime isBackground = []"
| "processWordsA (w # ws) currentTime isBackground =
     (let wordStart = a_timestamp w;
          wordEnd = a_endtime w;
          wordDuration = a_duration w;
          cleanWord = a_text w @ (if \<not> a_part w then ascii '' '' else [])
      in (if wordStart > currentTime + 10
          then [\<lparr>kw_word = [], kw_time = wordStart - currentTime,
                 kw_isBackground = isBackground, kw_startTime = Some currentTime\<rparr>]
          else [])
         @ [\<lparr>kw_word = cleanWord, kw_time = wordDuration,
              kw_isBackground = isBackground, kw_startTime = Some wordStart\<rparr>]
         @ processWordsA ws wordEnd isBackground)"

text \<open>\<open>words.map((w) => w.text + (!w.part ? " " : "")).join("").trim()\<close>\<close>

definition textStrA :: "wordA list \<Rightarrow> ustring" where
  "textStrA ws = trim (concat (map (\<lambda>w. a_text w @ (if \<not> a_part w then ascii '' '' else [])) ws))"

definition backgroundWordsA :: "lineA \<Rightarrow> kword list" where
  "backgroundWordsA line =
     (if la_backgroundText line \<noteq> []
      then processWordsA (la_backgroundText line) (la_timestamp line) True else [])"

definition cueA :: "lineA \<Rightarrow> cue" where
  "cueA line =
     \<lparr>c_startTime = la_timestamp line, c_endTime = la_endtime line,
      c_text = processWordsA (la_text line) (la_timestamp line) False,
      c_isBackground = False,
      c_background = (if backgroundWordsA line \<noteq> [] then Some (backgroundWordsA line) else None),
      c_originalText = None\<rparr>"

definition syncedA :: "lineA \<Rightarrow> syncedLine" where
  "syncedA line =
     \<lparr>s_startTime = la_timestamp line, s_endTime = la_endtime line,
      s_text = textStrA (la_text line), s_originalText = None,
      s_background = backgroundWordsA line\<rparr>"

definition valTextA :: "lineA \<Rightarrow> ustring" where
  "valTextA line =
     (let mainTextStr = textStrA (la_text line);
          bgTextStr = textStrA (la_backgroundText line)
      in if bgTextStr \<noteq> [] then mainTextStr @ ascii '' ('' @ bgTextStr @ ascii '')'' else mainTextStr)"

text \<open>
  \<open>parseJSON\<close>. Its loop over \<open>content\<close> pushes, line by line, a cue and a synced line
  unless \<open>type\<close> is "None", and an unsynced line when the line's combined text is not empty,
  so each array keeps the order of the lines. The early return for a payload without
  \<open>content\<close> gives an object without \<open>unsynced\<close>.
\<close>

record parsed =
  p_karaoke :: "cue list"
  p_synced :: "syncedLine list"
  p_unsynced :: "unsyncedLine list option"

definition parseJSON :: "payloadA \<Rightarrow> parsed" where
  "parseJSON lyricsJson =
     (case pa_content lyricsJson of
        None \<Rightarrow> \<lparr>p_karaoke = [], p_synced = [], p_unsynced = None\<rparr>
      | Some content \<Rightarrow>
          (let timed = (if pa_type lyricsJson \<noteq> Some (ascii ''None'') then content else [])
           in \<lparr>p_karaoke = map cueA timed,
               p_synced = map syncedA timed,
               p_unsynced =
                 Some (map (\<lambda>line. \<lparr>u_text = valTextA line\<rparr>)
                        (filter (\<lambda>line. valTextA line \<noteq> []) content))\<rparr>))"

text \<open>
  \<open>getSongInfo\<close>: the iTunes search. Its whole body after the empty-term test is inside
  \<open>try\<close>/\<open>catch\<close>, so a failed \<open>fetch\<close>, a failed \<open>response.json()\<close> and a missing
  \<open>trackId\<close> (whose \<open>toString()\<close> throws) all return \<open>null\<close>. \<open>trackId\<close> is kept in its
  string form. A body that arrives as a string is parsed once more by the source; the
  model takes the parsed body, a failed parse being \<open>Inl\<close>. The argument \<open>searchFetch\<close> is
  what awaiting \<open>fetch(url)\<close> gives.
\<close>

record candidate =
  cd_trackName :: ustring
  cd_artistName :: ustring
  cd_trackId :: "ustring option"
  cd_collectionName :: ustring
  cd_artworkUrl100 :: ustring

record songInfo =
  si_songName :: ustring
  si_artistName :: ustring
  si_appleID :: ustring
  si_albumName :: ustring
  si_artworkUrl :: ustring

definition getSongInfo ::
  "engine \<Rightarrow> (jsError + candidate list response) \<Rightarrow> ustring \<Rightarrow> ustring \<Rightarrow> songInfo option" where
  "getSongInfo E searchFetch songName artistName =
     (let searchTerm = artistName @ ascii '' '' @ songName
      in if trim searchTerm = [] then None
         else (case searchFetch of
             Inl e \<Rightarrow> None
           | Inr resp \<Rightarrow>
               (if \<not> resp_ok resp then None
                else (case resp_json resp of
                   Inl e \<Rightarrow> None
                 | Inr [] \<Rightarrow> None
                 | Inr (first # others) \<Rightarrow>
                     (let normalizedTitle = trim (toLowerCase E songName);
                          normalizedArtist = trim (toLowerCase E artistName);
                          match =
                            (case find (\<lambda>r. trim (toLowerCase E (cd_trackName r)) = normalizedTitle \<and>
                                            includes_s (toLowerCase E (cd_artistName r)) normalizedArtist)
                                       (first # others) of
                               Some m \<Rightarrow> m
                             | None \<Rightarrow> first)
                      in case cd_trackId match of
                           None \<Rightarrow> None
                         | Some tid \<Rightarrow>
                             Some \<lparr>si_songName = cd_trackName match,
                                   si_artistName = cd_artistName match,
                                   si_appleID = tid,
                                   si_albumName = cd_collectionName match,
                                   si_artworkUrl = cd_artworkUrl100 match\<rparr>)))))"

text \<open>
  \<open>getSyncedLyrics\<close>: reading \<open>CONFIG.providers.apple.token\<close> is outside its \<open>try\<close> and may
  throw; every failure after it returns \<open>null\<close>. A body that is \<open>null\<close> (or otherwise falsy)
  is \<open>Inr None\<close>; a body that arrives as a string is parsed once more, a failed parse being
  \<open>Inl\<close>. The request goes to a URL built from the id and the token. \<open>envA\<close> collects what
  the environment of ProviderApple answers: the search request, the read of the token,
  and the lyrics request for each URL.
\<close>

definition lyricsUrl :: "ustring option \<Rightarrow> ustring \<Rightarrow> ustring" where
  "lyricsUrl token ident =
     (case token of
        Some t \<Rightarrow>
          if t \<noteq> [] then ascii ''https://api.paxsenix.org/lyrics/applemusic?id='' @ ident
          else ascii ''https://lyrics.paxsenix.org/apple-music/lyrics?id='' @ ident
      | None \<Rightarrow> ascii ''https://lyrics.paxsenix.org/apple-music/lyrics?id='' @ ident)"

record envA =
  searchFetch :: "jsError + candidate list response"
  configToken :: "jsError + ustring option"
  lyricsFetch :: "ustring \<Rightarrow> jsError + payloadA option response"

definition getSyncedLyrics :: "envA \<Rightarrow> ustring \<Rightarrow> jsError + payloadA option" where
  "getSyncedLyrics env ident =
     (case configToken env of
        Inl e \<Rightarrow> Inl e
      | Inr token \<Rightarrow>
          (case lyricsFetch env (lyricsUrl token ident) of
             Inl e \<Rightarrow> Inr None
           | Inr resp \<Rightarrow>
               (if \<not> resp_ok resp then Inr None
                else (case resp_json resp of
                   Inl e \<Rightarrow> Inr None
                 | Inr None \<Rightarrow> Inr None
                 | Inr (Some body) \<Rightarrow> Inr (Some body)))))"

definition emptyResult :: "info \<Rightarrow> ustring \<Rightarrow> result" where
  "emptyResult info provider =
     \<lparr>r_uri = i_uri info, r_provider = provider, r_karaoke = None, r_synced = None,
      r_unsynced = None, r_copyright = None, r_error = None\<rparr>"

text \<open>
  \<open>findLyrics\<close> of ProviderApple. \<open>tryBodyA\<close> is the body of its \<open>try\<close> block: \<open>Inr\<close> a
  returned result, \<open>Inl\<close> an exception, which the \<open>catch\<close> clause turns into a result.
\<close>

definition tryBodyA :: "engine \<Rightarrow> envA \<Rightarrow> info \<Rightarrow> jsError + result" where
  "tryBodyA E env info =
     (let result = emptyResult info (ascii ''Apple Music'')
      in case getSongInfo E (searchFetch env) (i_title info) (i_artist info) of
           None \<Rightarrow> Inr (result\<lparr>r_error := Some (ascii ''Song not found'')\<rparr>)
         | Some songInfo \<Rightarrow>
             if si_appleID songInfo = []
             then Inr (result\<lparr>r_error := Some (ascii ''Song not found'')\<rparr>)
             else (case getSyncedLyrics env (si_appleID songInfo) of
                 Inl e \<Rightarrow> Inl e
               | Inr None \<Rightarrow> Inr (result\<lparr>r_error := Some (ascii ''No lyrics found'')\<rparr>)
               | Inr (Some lyricsData) \<Rightarrow>
                   (case pa_content lyricsData of
                      None \<Rightarrow> Inr (result\<lparr>r_error := Some (ascii ''Invalid lyrics format'')\<rparr>)
                    | Some content \<Rightarrow>
                        (let parsed = parseJSON lyricsData;
                             karaoke = p_karaoke parsed;
                             synced = p_synced parsed;
                             unsynced = p_unsynced parsed
                         in if karaoke = [] \<and> synced = [] \<and> (unsynced = None \<or> unsynced = Some [])
                            then Inr (result\<lparr>r_error := Some (ascii ''Empty lyrics'')\<rparr>)
                            else
                              (let result1 = result\<lparr>r_karaoke := (if karaoke \<noteq> [] then Some karaoke else None)\<rparr>;
                                   result2 = result1\<lparr>r_synced := (if synced \<noteq> [] then Some synced else None)\<rparr>
                               in Inr (result2\<lparr>r_unsynced :=
                                    (case unsynced of
                                       Some (u # us) \<Rightarrow> Some (UnsyncedLines (u # us))
                                     | _ \<Rightarrow> map_option SyncedLines (r_synced result2))\<rparr>))))))"

definition findLyricsA :: "engine \<Rightarrow> envA \<Rightarrow> info \<Rightarrow> result" where
  "findLyricsA E env info =
     (case tryBodyA E env info of
        Inr result \<Rightarrow> result
      | Inl e \<Rightarrow> (emptyResult info (ascii ''Apple Music''))\<lparr>r_error := Some (ascii ''Request error'')\<rparr>)"

section \<open>ProviderIanz56 (payload shape B, times in seconds)\<close>

text \<open>
  The times of shape B are JavaScript numbers holding seconds. They are modelled as
  rationals with exact arithmetic, and \<open>Math.round\<close> as rounding half up; the rounding
  error of double-precision arithmetic is not modelled.
\<close>

text \<open>
  The payload \<open>{ lines: [{ begin, end, text, translation, words: [word], backgroundVocal:
  { words: [word] } }] }\<close> with words \<open>{ text, begin, end, hasSpaceAfter, isBackground }\<close>.
  An absent flag is \<open>False\<close>, an absent string the empty string, and an absent \<open>lines\<close>,
  \<open>words\<close> or \<open>backgroundVocal.words\<close> the empty list: the source reads each of them
  through \<open>||\<close>, \<open>?.\<close> or a length test that treats the two alike. A word always has its
  \<open>text\<close>.
\<close>

definition js_round :: "rat \<Rightarrow> int" where
  "js_round x = \<lfloor>x + 1 / 2\<rfloor>"

record wordB =
  b_text :: ustring
  b_begin :: rat
  b_end :: rat
  b_hasSpaceAfter :: bool
  b_isBackground :: bool

record lineB =
  lb_begin :: rat
  lb_end :: rat
  lb_text :: ustring
  lb_translation :: ustring
  lb_words :: "wordB list"
  lb_backgroundVocal :: "wordB list"

record payloadB =
  pb_lines :: "lineB list"

text \<open>\<open>wordText.replace(/^[(]+|[)]+$/g, "")\<close>\<close>

definition stripParens :: "ustring \<Rightarrow> ustring" where
  "stripParens s = rev (dropWhile (\<lambda>c. c = 0x29) (rev (dropWhile (\<lambda>c. c = 0x28) s)))"

text \<open>
  \<open>processWords\<close> of \<open>convertToKaraokeFormat\<close>. The test \<open>i < words.length - 1\<close> holds
  exactly when words remain after the current one.
\<close>

fun processWordsB :: "wordB list \<Rightarrow> rat \<Rightarrow> bool \<Rightarrow> kword list" where
  "processWordsB [] currentTime isBackground = []"
| "processWordsB (w # ws) currentTime isBackground =
     (let wordText0 = (if isBackground then stripParens (b_text w) else b_text w);
          wordText = (if b_hasSpaceAfter w \<and> ws \<noteq> [] then wordText0 @ ascii '' '' else wordText0)
      in (if b_begin w > currentTime + 1 / 100
          then [\<lparr>kw_word = [], kw_time = js_round ((b_begin w - currentTime) * 1000),
                 kw_isBackground = isBackground, kw_startTime = None\<rparr>]
          else [])
         @ [\<lparr>kw_word = wordText, kw_time = js_round ((b_end w - b_begin w) * 1000),
              kw_isBackground = isBackground, kw_startTime = None\<rparr>]
         @ processWordsB ws (b_end w) isBackground)"

definition lineStartTimeB :: "lineB \<Rightarrow> rat" where
  "lineStartTimeB line =
     (let mainStart = lb_begin line;
          bgStart = (case lb_backgroundVocal line of [] \<Rightarrow> mainStart | w # ws \<Rightarrow> b_begin w)
      in min mainStart bgStart)"

definition lineEndTimeB :: "lineB \<Rightarrow> rat" where
  "lineEndTimeB line =
     (if lb_backgroundVocal line \<noteq> []
      then max (lb_end line) (b_end (last (lb_backgroundVocal line)))
      else lb_end line)"

definition backgroundWordsB :: "lineB \<Rightarrow> kword list" where
  "backgroundWordsB line =
     (if lb_backgroundVocal line \<noteq> []
      then processWordsB (lb_backgroundVocal line) (lineStartTimeB line) True else [])"

definition cueB :: "lineB \<Rightarrow> cue" where
  "cueB line =
     \<lparr>c_startTime = js_round (lineStartTimeB line * 1000),
      c_endTime = js_round (lineEndTimeB line * 1000),
      c_text = processWordsB (lb_words line) (lineStartTimeB line) False,
      c_isBackground = (lb_words line \<noteq> [] \<and> list_all b_isBackground (lb_words line)),
      c_background = (if backgroundWordsB line \<noteq> [] then Some (backgroundWordsB line) else None),
      c_originalText = Some (lb_translation line)\<rparr>"

definition syncedB :: "lineB \<Rightarrow> syncedLine" where
  "syncedB line =
     \<lparr>s_startTime = js_round (lineStartTimeB line * 1000),
      s_endTime = js_round (lineEndTimeB line * 1000),
      s_text = (if lb_translation line \<noteq> [] then lb_translation line else lb_text line),
      s_originalText = Some (if lb_translation line \<noteq> [] then lb_text line else []),
      s_background = backgroundWordsB line\<rparr>"

text \<open>
  \<open>Array.prototype.sort\<close> is stable, and so is \<open>sort_key\<close>; a stable sort by a key
  has one result.
\<close>

definition convertToKaraokeFormat :: "payloadB \<Rightarrow> cue list \<times> syncedLine list" where
  "convertToKaraokeFormat lyricsJson =
     (sort_key c_startTime (map cueB (pb_lines lyricsJson)),
      sort_key s_startTime (map syncedB (pb_lines lyricsJson)))"

text \<open>
  \<open>fetchIndex\<close> and \<open>fetchLyricsJson\<close> do the network requests; the model takes what
  awaiting them gives: a value, or the exception they throw.
\<close>

record envI =
  fetchIndex :: "jsError + entry list"
  fetchLyricsJson :: "ustring \<Rightarrow> jsError + payloadB"

definition tryBodyI :: "engine \<Rightarrow> envI \<Rightarrow> info \<Rightarrow> jsError + result" where
  "tryBodyI E env info =
     (let result = emptyResult info (ascii ''ianz56'')
      in case fetchIndex env of
           Inl e \<Rightarrow> Inl e
         | Inr index \<Rightarrow>
             (case findMatch E (i_artist info) (i_title info) index of
                None \<Rightarrow> Inl (Error (ascii ''No matching lyrics found''))
              | Some match \<Rightarrow>
                  (case e_jsonPath match of
                     None \<Rightarrow> Inl (Error (ascii ''No JSON path in matched entry''))
                   | Some jsonPath \<Rightarrow>
                       if jsonPath = [] then Inl (Error (ascii ''No JSON path in matched entry''))
                       else (case fetchLyricsJson env jsonPath of
                           Inl e \<Rightarrow> Inl e
                         | Inr lyricsJson \<Rightarrow>
                             (case convertToKaraokeFormat lyricsJson of
                                (karaoke, synced) \<Rightarrow>
                                  (let result1 = result\<lparr>r_karaoke := (if karaoke \<noteq> [] then Some karaoke else None)\<rparr>;
                                       result2 = result1\<lparr>r_synced := (if synced \<noteq> [] then Some synced else None)\<rparr>
                                   in Inr (result2\<lparr>r_unsynced := map_option SyncedLines (r_synced result2)\<rparr>)))))))"

definition findLyricsI :: "engine \<Rightarrow> envI \<Rightarrow> info \<Rightarrow> result" where
  "findLyricsI E env info =
     (case tryBodyI E env info of
        Inr result \<Rightarrow> result
      | Inl e \<Rightarrow> (emptyResult info (ascii ''ianz56''))\<lparr>r_error := Some (ascii ''Request error or lyrics not found'')\<rparr>)"

section \<open>Auxiliary notions for stating the properties\<close>


fun cursorAfterB :: "rat \<Rightarrow> wordB list \<Rightarrow> rat" where
  "cursorAfterB currentTime [] = currentTime"
| "cursorAfterB currentTime (w # ws) = cursorAfterB (b_end w) ws"



text \<open>The renderer's sum of the \<open>time\<close> fields.\<close>

definition totalTime :: "kword list \<Rightarrow> int" where
  "totalTime ks = sum_list (map kw_time ks)"

subsection \<open>Concrete inputs\<close>







text \<open>
  A background word wrapped in parentheses, and lines whose background track starts
  500 ms after the line itself.
\<close>

definition oohA :: wordA where
  "oohA = \<lparr>a_text = ascii ''(ooh)'', a_timestamp = 500, a_endtime = 800, a_duration = 300, a_part = True\<rparr>"

definition oohB :: wordB where
  "oohB = \<lparr>b_text = ascii ''(ooh)'', b_begin = 1 / 2, b_end = 8 / 10, b_hasSpaceAfter = False,
           b_isBackground = True\<rparr>"

definition lateBackgroundLineA :: lineA where
  "lateBackgroundLineA =
     \<lparr>la_timestamp = 0, la_endtime = 1000,
      la_text = [\<lparr>a_text = ascii ''Hey'', a_timestamp = 0, a_endtime = 300, a_duration = 300, a_part = True\<rparr>],
      la_backgroundText = [oohA]\<rparr>"

definition lateBackgroundLineB :: lineB where
  "lateBackgroundLineB =
     \<lparr>lb_begin = 0, lb_end = 1, lb_text = ascii ''Hey'', lb_translation = [],
      lb_words = [\<lparr>b_text = ascii ''Hey'', b_begin = 0, b_end = 3 / 10, b_hasSpaceAfter = False,
                   b_isBackground = False\<rparr>],
      lb_backgroundVocal = [oohB]\<rparr>"

text \<open>Two lines, and payloads that list them in reverse temporal order.\<close>

definition heyLineA :: lineA where
  "heyLineA =
     \<lparr>la_timestamp = 0, la_endtime = 300,
      la_text = [\<lparr>a_text = ascii ''Hey'', a_timestamp = 0, a_endtime = 300,
                  a_duration = 300, a_part = False\<rparr>],
      la_backgroundText = []\<rparr>"

definition youLineA :: lineA where
  "youLineA =
     \<lparr>la_timestamp = 1000, la_endtime = 1300,
      la_text = [\<lparr>a_text = ascii ''you'', a_timestamp = 1000, a_endtime = 1300,
                  a_duration = 300, a_part = False\<rparr>],
      la_backgroundText = []\<rparr>"

definition unorderedPayloadA :: payloadA where
  "unorderedPayloadA = \<lparr>pa_type = Some (ascii ''Syllable''), pa_content = Some [youLineA, heyLineA]\<rparr>"

definition heyLineB :: lineB where
  "heyLineB =
     \<lparr>lb_begin = 0, lb_end = 3 / 10, lb_text = ascii ''Hey'', lb_translation = [],
      lb_words = [\<lparr>b_text = ascii ''Hey'', b_begin = 0, b_end = 3 / 10,
                   b_hasSpaceAfter = False, b_isBackground = False\<rparr>],
      lb_backgroundVocal = []\<rparr>"

definition youLineB :: lineB where
  "youLineB =
     \<lparr>lb_begin = 1, lb_end = 13 / 10, lb_text = ascii ''you'', lb_translation = [],
      lb_words = [\<lparr>b_text = ascii ''you'', b_begin = 1, b_end = 13 / 10,
                   b_hasSpaceAfter = False, b_isBackground = False\<rparr>],
      lb_backgroundVocal = []\<rparr>"

definition unorderedPayloadB :: payloadB where
  "unorderedPayloadB = \<lparr>pb_lines = [youLineB, heyLineB]\<rparr>"

subsection \<open>An engine for concrete inputs\<close>

text \<open>
  The engine's two string functions on the code units U+0000 to U+00FF, from the Unicode
  character database: simple lower-case mapping and canonical decomposition (a row of
  \<open>latin1Upper\<close> is a capital letter, its base letter and its combining mark; the small
  letters are 32 above). Code units outside this range are left as they are, so
  \<open>latin1Engine\<close> stands for the real engine only on strings within the range.
\<close>

definition latin1Lower :: "nat \<Rightarrow> nat" where
  "latin1Lower c =
     (if (0x41 \<le> c \<and> c \<le> 0x5A) \<or> (0xC0 \<le> c \<and> c \<le> 0xDE \<and> c \<noteq> 0xD7) then c + 0x20 else c)"

definition latin1Upper :: "(nat \<times> nat \<times> nat) list" where
  "latin1Upper =
     [(0xC0, 0x41, 0x300), (0xC1, 0x41, 0x301), (0xC2, 0x41, 0x302), (0xC3, 0x41, 0x303),
      (0xC4, 0x41, 0x308), (0xC5, 0x41, 0x30A), (0xC7, 0x43, 0x327),
      (0xC8, 0x45, 0x300), (0xC9, 0x45, 0x301), (0xCA, 0x45, 0x302), (0xCB, 0x45, 0x308),
      (0xCC, 0x49, 0x300), (0xCD, 0x49, 0x301), (0xCE, 0x49, 0x302), (0xCF, 0x49, 0x308),
      (0xD1, 0x4E, 0x303),
      (0xD2, 0x4F, 0x300), (0xD3, 0x4F, 0x301), (0xD4, 0x4F, 0x302), (0xD5, 0x4F, 0x303),
      (0xD6, 0x4F, 0x308),
      (0xD9, 0x55, 0x300), (0xDA, 0x55, 0x301), (0xDB, 0x55, 0x302), (0xDC, 0x55, 0x308),
      (0xDD, 0x59, 0x301)]"

definition latin1Table :: "(nat \<times> nat \<times> nat) list" where
  "latin1Table =
     latin1Upper @ map (\<lambda>(c, b, m). (c + 0x20, b + 0x20, m)) latin1Upper @ [(0xFF, 0x79, 0x308)]"

definition latin1Decompose :: "nat \<Rightarrow> nat list" where
  "latin1Decompose c = (case map_of latin1Table c of Some (b, m) \<Rightarrow> [b, m] | None \<Rightarrow> [c])"

definition latin1Engine :: engine where
  "latin1Engine =
     \<lparr>toLowerCase = map latin1Lower, normalizeNFD = (\<lambda>s. concat (map latin1Decompose s))\<rparr>"

subsection \<open>Lines with text\<close>



definition heyInfo :: info where
  "heyInfo = \<lparr>i_uri = ascii ''spotify:track:1'', i_title = ascii ''Hey'', i_artist = ascii ''Duo''\<rparr>"

definition heyCandidate :: candidate where
  "heyCandidate =
     \<lparr>cd_trackName = ascii ''Hey'', cd_artistName = ascii ''Duo'', cd_trackId = Some (ascii ''42''),
      cd_collectionName = ascii ''LP'', cd_artworkUrl100 = []\<rparr>"

definition servingA :: "payloadA \<Rightarrow> envA" where
  "servingA payload =
     \<lparr>searchFetch = Inr \<lparr>resp_ok = True, resp_json = Inr [heyCandidate]\<rparr>,
      configToken = Inr None,
      lyricsFetch = (\<lambda>url. Inr \<lparr>resp_ok = True, resp_json = Inr (Some payload)\<rparr>)\<rparr>"

text \<open>
  An index with one entry that matches \<open>heyInfo\<close>, and an environment of ProviderIanz56 in
  which the index is fetched and the lyrics request returns a given payload.
\<close>

definition heyEntry :: entry where
  "heyEntry = \<lparr>e_artist = ascii ''Duo'', e_title = ascii ''Hey'',
                e_jsonPath = Some (ascii ''./JSON/Hey.json'')\<rparr>"

definition servingI :: "payloadB \<Rightarrow> envI" where
  "servingI payload = \<lparr>fetchIndex = Inr [heyEntry], fetchLyricsJson = (\<lambda>jsonPath. Inr payload)\<rparr>"

text \<open>A result that reports a failure: \<open>error\<close> is set and the three content fields are \<open>null\<close>.\<close>

definition failureResult :: "result \<Rightarrow> bool" where
  "failureResult r \<longleftrightarrow>
     r_error r \<noteq> None \<and> r_karaoke r = None \<and> r_synced r = None \<and> r_unsynced r = None"

subsection \<open>Notions for the string functions\<close>

text \<open>
  A string in which white space occurs only as single U+0020 characters between other
  characters is left alone by \<open>collapseSpaces\<close>; \<open>tidy\<close> is the part of this that concerns
  neighbours.
\<close>

fun tidy :: "ustring \<Rightarrow> bool" where
  "tidy [] = True"
| "tidy (c # cs) = ((isSpace c \<longrightarrow> c = 0x20 \<and> (cs = [] \<or> \<not> isSpace (hd cs))) \<and> tidy cs)"

definition isLowerWordChar :: "nat \<Rightarrow> bool" where
  "isLowerWordChar c \<longleftrightarrow>
     (0x61 \<le> c \<and> c \<le> 0x7A) \<or> (0x30 \<le> c \<and> c \<le> 0x39) \<or> c = 0x5F"

text \<open>
  Two facts about \<open>toLowerCase\<close> and \<open>normalize("NFD")\<close> that hold for ECMAScript's functions
  and on which idempotence of \<open>normalize\<close> rests. First: after lower-casing and canonical
  decomposition no ASCII capital letter is left (every character whose decomposition
  contains one has a lower-case mapping). Second: a string of ASCII small letters, digits,
  underscores and spaces is changed by neither function.
\<close>

definition lowercasesAscii :: "engine \<Rightarrow> bool" where
  "lowercasesAscii E \<longleftrightarrow>
     (\<forall>s. \<forall>c\<in>set (normalizeNFD E (toLowerCase E s)). \<not> (0x41 \<le> c \<and> c \<le> 0x5A))"

definition fixesPlainAscii :: "engine \<Rightarrow> bool" where
  "fixesPlainAscii E \<longleftrightarrow>
     (\<forall>s. (\<forall>c\<in>set s. isLowerWordChar c \<or> c = 0x20) \<longrightarrow>
          toLowerCase E s = s \<and> normalizeNFD E s = s)"

subsection \<open>The title-fallback tier in the specification's words\<close>

text \<open>
  An entry with an empty normalized artist matches on title equality or containment either
  way; an entry with a non-empty normalized artist matches on title equality alone.
\<close>

definition titleFallbackSpec :: "engine \<Rightarrow> ustring \<Rightarrow> entry \<Rightarrow> bool" where
  "titleFallbackSpec E title en \<longleftrightarrow>
     (normalize_s E (e_artist en) = [] \<and>
        (normalize_s E (e_title en) = normalize_s E title \<or>
         includes_s (normalize_s E (e_title en)) (normalize_s E title) \<or>
         includes_s (normalize_s E title) (normalize_s E (e_title en)))) \<or>
     (normalize_s E (e_artist en) \<noteq> [] \<and> normalize_s E (e_title en) = normalize_s E title)"

text \<open>The index entries of Scenario 2 and of the comment in \<open>findMatch\<close>.\<close>

definition tanpaCintaNoArtist :: entry where
  "tanpaCintaNoArtist = \<lparr>e_artist = [], e_title = ascii ''Tanpa Cinta'',
                          e_jsonPath = Some (ascii ''./JSON/IND/Tanpa Cinta.json'')\<rparr>"

definition tanpaCintaTiara :: entry where
  "tanpaCintaTiara = \<lparr>e_artist = ascii ''Tiara'', e_title = ascii ''Tanpa Cinta'',
                       e_jsonPath = Some (ascii ''./JSON/IND/Tiara - Tanpa Cinta.json'')\<rparr>"

section \<open>Lemmas about the string functions\<close>

lemma strip_ends:
  assumes "rev (dropWhile Q (rev (dropWhile P s))) \<noteq> []"
  shows "\<not> P (hd (rev (dropWhile Q (rev (dropWhile P s)))))"
    and "\<not> Q (last (rev (dropWhile Q (rev (dropWhile P s)))))"
proof -
  define s1 where "s1 = dropWhile P s"
  define r where "r = dropWhile Q (rev s1)"
  from assms have ne: "r \<noteq> []" unfolding r_def s1_def by simp
  then have "\<not> Q (hd r)" unfolding r_def by (rule hd_dropWhile)
  then show "\<not> Q (last (rev (dropWhile Q (rev (dropWhile P s)))))"
    unfolding r_def s1_def by (simp add: last_rev)
  have s1: "s1 \<noteq> []"
  proof
    assume "s1 = []"
    then have "r = []" unfolding r_def by (simp only: rev.simps dropWhile.simps)
    with ne show False ..
  qed
  then have h1: "\<not> P (hd s1)" unfolding s1_def by (rule hd_dropWhile)
  have "suffix r (rev s1)" unfolding r_def by (rule suffix_dropWhile)
  then obtain zs where "rev s1 = zs @ r" by (auto simp: suffix_def)
  then have "s1 = rev r @ rev zs" by (metis rev_append rev_rev_ident)
  with ne have "hd s1 = hd (rev r)" by (metis hd_append2 rev_is_Nil_conv)
  with h1 show "\<not> P (hd (rev (dropWhile Q (rev (dropWhile P s)))))"
    unfolding r_def s1_def by simp
qed

lemma strip_prefix_suffix:
  "s = takeWhile P s @ rev (dropWhile Q (rev (dropWhile P s)))
         @ rev (takeWhile Q (rev (dropWhile P s)))"
proof -
  have a: "s = takeWhile P s @ dropWhile P s" by simp
  have "rev (takeWhile Q (rev (dropWhile P s)) @ dropWhile Q (rev (dropWhile P s)))
          = rev (rev (dropWhile P s))"
    by (simp only: takeWhile_dropWhile_id)
  then have "dropWhile P s = rev (dropWhile Q (rev (dropWhile P s)))
      @ rev (takeWhile Q (rev (dropWhile P s)))"
    by (simp only: rev_append rev_rev_ident)
  with a show ?thesis by metis
qed

lemma trim_ends:
  "trim s \<noteq> [] \<Longrightarrow> \<not> isSpace (hd (trim s)) \<and> \<not> isSpace (last (trim s))"
  unfolding trim_def using strip_ends [of isSpace isSpace s] by blast

lemma set_trim: "c \<in> set (trim s) \<Longrightarrow> c \<in> set s"
  unfolding trim_def by (metis set_dropWhileD set_rev)


lemma stripParens_decompose:
  "\<exists>n m. s = replicate n 0x28 @ stripParens s @ replicate m 0x29"
proof -
  define pre where "pre = takeWhile (\<lambda>c. c = 0x28) s"
  define post where "post = rev (takeWhile (\<lambda>c. c = 0x29) (rev (dropWhile (\<lambda>c. c = 0x28) s)))"
  have "s = pre @ stripParens s @ post"
    unfolding pre_def post_def stripParens_def by (rule strip_prefix_suffix)
  moreover have "pre = replicate (length pre) (0x28::nat)"
    unfolding pre_def by (rule replicate_length_same [symmetric]) (auto dest: set_takeWhileD)
  moreover have "post = replicate (length post) (0x29::nat)"
    unfolding post_def by (rule replicate_length_same [symmetric]) (auto dest: set_takeWhileD)
  ultimately have "s = replicate (length pre) 0x28 @ stripParens s @ replicate (length post) 0x29"
    by simp
  then show ?thesis by blast
qed

lemma stripParens_ends:
  "stripParens s \<noteq> [] \<Longrightarrow> hd (stripParens s) \<noteq> 0x28 \<and> last (stripParens s) \<noteq> 0x29"
  unfolding stripParens_def
  using strip_ends [of "\<lambda>c. c = 0x29" "\<lambda>c. c = 0x28" s] by blast

lemma trim_fixed:
  assumes "z = [] \<or> (\<not> isSpace (hd z) \<and> \<not> isSpace (last z))"
  shows "trim z = z"
proof (cases "z = []")
  case True
  then show ?thesis by (simp add: trim_def)
next
  case False
  with assms have h: "\<not> isSpace (hd z)" and l: "\<not> isSpace (last z)" by auto
  from h have "dropWhile isSpace z = z" by (simp add: dropWhile_eq_self_iff)
  moreover from l False have "dropWhile isSpace (rev z) = rev z"
    by (simp add: dropWhile_eq_self_iff hd_rev)
  ultimately show ?thesis by (simp add: trim_def)
qed

lemma tidy_append: "tidy (xs @ ys) \<Longrightarrow> tidy xs \<and> tidy ys"
proof (induction xs)
  case Nil
  then show ?case by simp
next
  case (Cons c cs)
  then show ?case by (cases cs) auto
qed

lemma tidy_trim: "tidy s \<Longrightarrow> tidy (trim s)"
proof -
  assume t: "tidy s"
  have "s = takeWhile isSpace s @ trim s @ rev (takeWhile isSpace (rev (dropWhile isSpace s)))"
    unfolding trim_def by (rule strip_prefix_suffix)
  with t have "tidy (takeWhile isSpace s @ trim s
      @ rev (takeWhile isSpace (rev (dropWhile isSpace s))))"
    by simp
  then show ?thesis using tidy_append by blast
qed

lemma collapseSpaces_hd:
  "ys \<noteq> [] \<Longrightarrow> \<not> isSpace (hd ys) \<Longrightarrow>
   collapseSpaces ys \<noteq> [] \<and> hd (collapseSpaces ys) = hd ys"
  by (cases ys) simp_all

lemma tidy_collapseSpaces: "tidy (collapseSpaces s)"
proof (induction s rule: collapseSpaces.induct)
  case 1
  then show ?case by simp
next
  case (2 c cs)
  show ?case
  proof (cases "isSpace c")
    case True
    define d where "d = dropWhile isSpace cs"
    from True 2 have t: "tidy (collapseSpaces d)" unfolding d_def by simp
    have "collapseSpaces d = [] \<or> \<not> isSpace (hd (collapseSpaces d))"
    proof (cases "d = []")
      case True
      then show ?thesis by simp
    next
      case False
      then have "\<not> isSpace (hd d)" unfolding d_def by (rule hd_dropWhile)
      with False show ?thesis using collapseSpaces_hd [of d] by simp
    qed
    moreover from True have "collapseSpaces (c # cs) = 0x20 # collapseSpaces d"
      unfolding d_def by simp
    ultimately show ?thesis using t by (simp add: isSpace_def)
  next
    case False
    with 2 show ?thesis by simp
  qed
qed

lemma collapseSpaces_tidy: "tidy s \<Longrightarrow> collapseSpaces s = s"
proof (induction s)
  case Nil
  then show ?case by simp
next
  case (Cons c cs)
  then have t: "tidy cs" and sp: "isSpace c \<longrightarrow> c = 0x20 \<and> (cs = [] \<or> \<not> isSpace (hd cs))"
    by simp_all
  show ?case
  proof (cases "isSpace c")
    case True
    with sp have c: "c = 0x20" and "cs = [] \<or> \<not> isSpace (hd cs)" by simp_all
    then have "dropWhile isSpace cs = cs" by (simp add: dropWhile_eq_self_iff)
    with True c Cons.IH [OF t] show ?thesis by simp
  next
    case False
    with Cons.IH [OF t] show ?thesis by simp
  qed
qed

lemma set_collapseSpaces:
  "c \<in> set (collapseSpaces s) \<Longrightarrow> (c \<in> set s \<and> \<not> isSpace c) \<or> c = 0x20"
proof (induction s rule: collapseSpaces.induct)
  case 1
  then show ?case by simp
next
  case (2 d ds)
  show ?case
  proof (cases "isSpace d")
    case True
    with 2 show ?thesis by (auto dest: set_dropWhileD)
  next
    case False
    with 2 show ?thesis by auto
  qed
qed

lemma normalize_s_shape:
  assumes "lowercasesAscii E"
  shows "tidy (normalize_s E s)"
    and "normalize_s E s = [] \<or>
         (\<not> isSpace (hd (normalize_s E s)) \<and> \<not> isSpace (last (normalize_s E s)))"
    and "\<forall>c\<in>set (normalize_s E s). isLowerWordChar c \<or> c = 0x20"
proof -
  define x where "x = filter (\<lambda>c. isWordChar c \<or> isSpace c)
      (filter (\<lambda>c. \<not> isCombiningMark c) (normalizeNFD E (toLowerCase E s)))"
  have n: "normalize_s E s = (if s = [] then [] else trim (collapseSpaces x))"
    by (simp add: normalize_s_def x_def)
  show "tidy (normalize_s E s)"
    by (simp add: n tidy_trim tidy_collapseSpaces)
  show "normalize_s E s = [] \<or>
         (\<not> isSpace (hd (normalize_s E s)) \<and> \<not> isSpace (last (normalize_s E s)))"
    using trim_ends [of "collapseSpaces x"] by (auto simp: n)
  have x: "\<forall>c\<in>set x. (isLowerWordChar c \<or> isSpace c)"
  proof
    fix c assume "c \<in> set x"
    then have m: "c \<in> set (normalizeNFD E (toLowerCase E s))" and w: "isWordChar c \<or> isSpace c"
      by (auto simp: x_def)
    from assms m have "\<not> (0x41 \<le> c \<and> c \<le> 0x5A)" by (auto simp: lowercasesAscii_def)
    with w show "isLowerWordChar c \<or> isSpace c"
      by (auto simp: isWordChar_def isLowerWordChar_def)
  qed
  show "\<forall>c\<in>set (normalize_s E s). isLowerWordChar c \<or> c = 0x20"
  proof
    fix c assume "c \<in> set (normalize_s E s)"
    then have "c \<in> set (collapseSpaces x)" by (auto simp: n dest: set_trim split: if_splits)
    then have "(c \<in> set x \<and> \<not> isSpace c) \<or> c = 0x20" by (rule set_collapseSpaces)
    with x show "isLowerWordChar c \<or> c = 0x20" by auto
  qed
qed

lemma normalize_s_fixed:
  assumes "fixesPlainAscii E" and "tidy z"
    and "z = [] \<or> (\<not> isSpace (hd z) \<and> \<not> isSpace (last z))"
    and "\<forall>c\<in>set z. isLowerWordChar c \<or> c = 0x20"
  shows "normalize_s E z = z"
proof (cases "z = []")
  case True
  then show ?thesis by (simp add: normalize_s_def)
next
  case False
  from assms(1,4) have e: "toLowerCase E z = z" "normalizeNFD E z = z"
    by (auto simp: fixesPlainAscii_def)
  have f1: "filter (\<lambda>c. \<not> isCombiningMark c) z = z"
    using assms(4) by (auto simp: filter_id_conv isLowerWordChar_def isCombiningMark_def)
  have f2: "filter (\<lambda>c. isWordChar c \<or> isSpace c) z = z"
    using assms(4) by (auto simp: filter_id_conv isLowerWordChar_def isWordChar_def isSpace_def)
  from False show ?thesis
    by (simp add: normalize_s_def e f1 f2 collapseSpaces_tidy [OF assms(2)] trim_fixed [OF assms(3)])
qed

lemma normalize_s_idem:
  assumes "lowercasesAscii E" and "fixesPlainAscii E"
  shows "normalize_s E (normalize_s E s) = normalize_s E s"
  by (rule normalize_s_fixed [OF assms(2) normalize_s_shape [OF assms(1)]])

subsection \<open>The engine on U+0000 to U+00FF\<close>

lemma latin1Table_entries:
  "list_all (\<lambda>(k, b, m). 0xC0 \<le> k \<and> \<not> (0x41 \<le> m \<and> m \<le> 0x5A) \<and>
      ((0xC0 \<le> k \<and> k \<le> 0xDE \<and> k \<noteq> 0xD7) \<or> \<not> (0x41 \<le> b \<and> b \<le> 0x5A))) latin1Table"
  by (simp add: latin1Table_def latin1Upper_def)

lemma latin1Lower_range:
  "\<not> (0x41 \<le> latin1Lower x \<and> latin1Lower x \<le> 0x5A) \<and>
   \<not> (0xC0 \<le> latin1Lower x \<and> latin1Lower x \<le> 0xDE \<and> latin1Lower x \<noteq> 0xD7)"
  unfolding latin1Lower_def by (simp split: if_splits)

lemma latin1Decompose_lower:
  assumes "c \<in> set (latin1Decompose (latin1Lower x))"
  shows "\<not> (0x41 \<le> c \<and> c \<le> 0x5A)"
proof (cases "map_of latin1Table (latin1Lower x)")
  case None
  with assms have "c = latin1Lower x" by (simp add: latin1Decompose_def)
  with latin1Lower_range [of x] show ?thesis by blast
next
  case (Some bm)
  obtain b m where bm: "bm = (b, m)" by (cases bm)
  with Some have "(latin1Lower x, b, m) \<in> set latin1Table" by (auto dest: map_of_SomeD)
  with latin1Table_entries have
    "\<not> (0x41 \<le> m \<and> m \<le> 0x5A) \<and>
     ((0xC0 \<le> latin1Lower x \<and> latin1Lower x \<le> 0xDE \<and> latin1Lower x \<noteq> 0xD7)
      \<or> \<not> (0x41 \<le> b \<and> b \<le> 0x5A))"
    by (auto simp: list_all_iff)
  with latin1Lower_range [of x] have "\<not> (0x41 \<le> m \<and> m \<le> 0x5A)" "\<not> (0x41 \<le> b \<and> b \<le> 0x5A)"
    by blast+
  moreover from assms Some bm have "c = b \<or> c = m" by (simp add: latin1Decompose_def)
  ultimately show ?thesis by blast
qed

lemma latin1Engine_lowercasesAscii: "lowercasesAscii latin1Engine"
  by (auto simp: lowercasesAscii_def latin1Engine_def dest: latin1Decompose_lower)

lemma latin1Decompose_low: "c < 0xC0 \<Longrightarrow> latin1Decompose c = [c]"
proof -
  assume c: "c < 0xC0"
  have "c \<notin> fst ` set latin1Table"
  proof
    assume "c \<in> fst ` set latin1Table"
    then obtain b m where "(c, b, m) \<in> set latin1Table" by auto
    with latin1Table_entries have "0xC0 \<le> c" by (auto simp: list_all_iff)
    with c show False by simp
  qed
  then have "map_of latin1Table c = None" by (simp add: map_of_eq_None_iff)
  then show ?thesis by (simp add: latin1Decompose_def)
qed

lemma latin1Engine_fixesPlainAscii: "fixesPlainAscii latin1Engine"
proof -
  have "map latin1Lower s = s \<and> concat (map latin1Decompose s) = s"
    if "\<forall>c\<in>set s. isLowerWordChar c \<or> c = 0x20" for s
  proof -
    from that have l: "\<forall>c\<in>set s. latin1Lower c = c"
      by (auto simp: isLowerWordChar_def latin1Lower_def)
    from that have "\<forall>c\<in>set s. c < 0xC0" by (auto simp: isLowerWordChar_def)
    then have d: "\<forall>c\<in>set s. latin1Decompose c = [c]" by (simp add: latin1Decompose_low)
    from l have "map latin1Lower s = s" by (simp add: map_idI)
    moreover from d have "map latin1Decompose s = map (\<lambda>c. [c]) s" by simp
    then have "concat (map latin1Decompose s) = concat (map (\<lambda>c. [c]) s)" by (rule arg_cong)
    then have "concat (map latin1Decompose s) = s" by simp
    ultimately show ?thesis by simp
  qed
  then show ?thesis by (simp add: fixesPlainAscii_def latin1Engine_def)
qed

lemma normalize_cafe:
  "normalize_s latin1Engine (ascii ''Caf'' @ [0xE9]) = ascii ''cafe''"
  "normalize_s latin1Engine (ascii ''CAFE'') = ascii ''cafe''"
  by (simp_all add: normalize_s_def latin1Engine_def latin1Lower_def latin1Decompose_def
      latin1Table_def latin1Upper_def isWordChar_def isSpace_def isCombiningMark_def trim_def
      ascii_def)


lemma normalize_tanpa:
  "normalize_s latin1Engine (ascii ''Tanpa Cinta'') = ascii ''tanpa cinta''"
  "normalize_s latin1Engine (ascii ''Tiara'') = ascii ''tiara''"
  "normalize_s latin1Engine (ascii ''Yovie'') = ascii ''yovie''"
  by (simp_all add: normalize_s_def latin1Engine_def latin1Lower_def latin1Decompose_low
      isWordChar_def isSpace_def isCombiningMark_def trim_def ascii_def)

subsection \<open>findMatch\<close>

lemma titleOnlyMatch_spec: "titleOnlyMatch E (normalize_s E title) en = titleFallbackSpec E title en"
  by (auto simp: titleOnlyMatch_def titleFallbackSpec_def Let_def)

lemma findMatch_fallback:
  "find (exactMatch E (normalize_s E artist) (normalize_s E title)) index = None \<Longrightarrow>
   find (partialMatch E (normalize_s E artist) (normalize_s E title)) index = None \<Longrightarrow>
   findMatch E artist title index = find (titleFallbackSpec E title) index"
proof -
  have "titleOnlyMatch E (normalize_s E title) = titleFallbackSpec E title"
    by (rule ext) (rule titleOnlyMatch_spec)
  then show "find (exactMatch E (normalize_s E artist) (normalize_s E title)) index = None \<Longrightarrow>
   find (partialMatch E (normalize_s E artist) (normalize_s E title)) index = None \<Longrightarrow>
   findMatch E artist title index = find (titleFallbackSpec E title) index"
    by (simp add: findMatch_def Let_def)
qed

lemma findMatch_no_artist_entry:
  "findMatch E artist (e_title en) [en] = Some en" if "e_artist en = []"
proof -
  have a: "normalize_s E (e_artist en) = []" using that by (simp add: normalize_s_def)
  show ?thesis
  proof (cases "normalize_s E artist = []")
    case True
    with a show ?thesis by (simp add: findMatch_def exactMatch_def Let_def)
  next
    case False
    with a show ?thesis
      by (auto simp: findMatch_def exactMatch_def partialMatch_def titleOnlyMatch_def Let_def)
  qed
qed


section \<open>Lemmas about the word conversion and parseJSON\<close>


lemma processWordsB_Cons_ex:
  "\<exists>h. processWordsB (p # rest) currentTime bg = h @ processWordsB rest (b_end p) bg"
  unfolding processWordsB.simps Let_def append_assoc [symmetric]
  by (rule exI) (rule refl)

lemma processWordsB_append:
  "\<exists>ys. processWordsB (pre @ w # post) currentTime bg =
     ys @ processWordsB (w # post) (cursorAfterB currentTime pre) bg"
proof (induction pre arbitrary: currentTime)
  case Nil
  show ?case by (rule exI [of _ "[]"]) simp
next
  case (Cons p pre)
  from Cons [of "b_end p"] obtain ys where
    ys: "processWordsB (pre @ w # post) (b_end p) bg =
           ys @ processWordsB (w # post) (cursorAfterB (b_end p) pre) bg" ..
  from processWordsB_Cons_ex [of p "pre @ w # post" currentTime bg] obtain h where
    h: "processWordsB (p # pre @ w # post) currentTime bg =
          h @ processWordsB (pre @ w # post) (b_end p) bg" ..
  have "processWordsB ((p # pre) @ w # post) currentTime bg =
          (h @ ys) @ processWordsB (w # post) (cursorAfterB currentTime (p # pre)) bg"
    using h ys by simp
  then show ?case ..
qed

lemma totalTime_append: "totalTime (xs @ ys) = totalTime xs + totalTime ys"
  by (simp add: totalTime_def)


lemma floor_rat_numeral [simp]:
  "\<lfloor>numeral a / numeral b :: rat\<rfloor> = numeral a div numeral b"
  using floor_divide_of_int_eq [of "numeral a" "numeral b", where ?'a = rat] by simp

lemma floor_rat_one_numeral [simp]:
  "\<lfloor>1 / numeral b :: rat\<rfloor> = 1 div numeral b"
  using floor_divide_of_int_eq [of 1 "numeral b", where ?'a = rat] by simp





lemma startTimes_A:
  "c_startTime \<circ> cueA = la_timestamp"
  "s_startTime \<circ> syncedA = la_timestamp"
  by (rule ext, simp add: cueA_def syncedA_def)+




lemma getSongInfo_hey:
  "getSongInfo latin1Engine (searchFetch (servingA p)) (i_title heyInfo) (i_artist heyInfo)
     = Some \<lparr>si_songName = ascii ''Hey'', si_artistName = ascii ''Duo'', si_appleID = ascii ''42'',
             si_albumName = ascii ''LP'', si_artworkUrl = []\<rparr>"
  by (simp add: getSongInfo_def servingA_def heyInfo_def heyCandidate_def latin1Engine_def
      latin1Lower_def trim_def isSpace_def ascii_def)

lemma getSyncedLyrics_serving:
  "getSyncedLyrics (servingA p) ident = Inr (Some p)"
  by (simp add: getSyncedLyrics_def servingA_def)


section \<open>Lemmas about findLyrics\<close>

lemma exactMatch_same:
  "exactMatch E (normalize_s E (e_artist en)) (normalize_s E (e_title en)) en"
  by (simp add: exactMatch_def)

lemma findMatch_hey: "findMatch E (i_artist heyInfo) (i_title heyInfo) [heyEntry] = Some heyEntry"
  by (simp add: findMatch_def heyInfo_def heyEntry_def exactMatch_def)

lemma servingI_simps:
  "fetchIndex (servingI p) = Inr [heyEntry]"
  "fetchLyricsJson (servingI p) jsonPath = Inr p"
  "e_jsonPath heyEntry = Some (ascii ''./JSON/Hey.json'')"
  "ascii ''./JSON/Hey.json'' \<noteq> []"
  by (simp_all add: servingI_def heyEntry_def ascii_def)

lemma findLyricsA_error_iff:
  "r_error (findLyricsA E env info) \<noteq> None \<longleftrightarrow>
     r_karaoke (findLyricsA E env info) = None \<and> r_synced (findLyricsA E env info) = None \<and>
     r_unsynced (findLyricsA E env info) = None"
  by (auto simp: findLyricsA_def tryBodyA_def emptyResult_def Let_def
      split: sum.splits option.splits list.splits if_splits)

lemma findLyricsI_error_imp:
  "r_error (findLyricsI E env info) \<noteq> None \<Longrightarrow>
     r_karaoke (findLyricsI E env info) = None \<and> r_synced (findLyricsI E env info) = None \<and>
     r_unsynced (findLyricsI E env info) = None"
  by (auto simp: findLyricsI_def tryBodyI_def emptyResult_def Let_def
      split: sum.splits option.splits list.splits if_splits prod.splits)




lemma error_result_failure:
  "failureResult ((emptyResult info provider)\<lparr>r_error := Some msg\<rparr>)"
  by (simp add: failureResult_def emptyResult_def)






lemma findLyricsA_exception:
  "getSongInfo E (searchFetch env) (i_title info) (i_artist info) = Some song \<Longrightarrow>
   getSyncedLyrics env (si_appleID song) = Inl e \<Longrightarrow>
   failureResult (findLyricsA E env info)"
  by (cases "si_appleID song = []")
    (simp_all add: findLyricsA_def tryBodyA_def error_result_failure Let_def)








lemma findLyricsA_empty_lyrics:
  assumes "getSongInfo E (searchFetch env) (i_title info) (i_artist info) = Some song"
    and "si_appleID song \<noteq> []"
    and "getSyncedLyrics env (si_appleID song) = Inr (Some p)"
    and "pa_content p = Some []"
  shows "findLyricsA E env info
           = (emptyResult info (ascii ''Apple Music''))\<lparr>r_error := Some (ascii ''Empty lyrics'')\<rparr>"
  using assms by (simp add: findLyricsA_def tryBodyA_def parseJSON_def Let_def)

lemma findLyricsA_empty_payload:
  "findLyricsA latin1Engine (servingA \<lparr>pa_type = None, pa_content = Some []\<rparr>) heyInfo
     = (emptyResult heyInfo (ascii ''Apple Music''))\<lparr>r_error := Some (ascii ''Empty lyrics'')\<rparr>"
  by (rule findLyricsA_empty_lyrics [OF getSongInfo_hey _ getSyncedLyrics_serving])
    (simp_all add: ascii_def)

section \<open>What convertToKaraokeFormat does for shape B\<close>

text \<open>
  For every background raw word of shape B, the text of the emitted word is the raw text
  with its leading run of opening parentheses and its trailing run of closing parentheses
  removed (followed by a space when \<open>hasSpaceAfter\<close> is set and the word is not the last):
  what is left neither begins with an opening nor ends with a closing parenthesis. The
  background word "(ooh)" is emitted with the text "ooh".
\<close>

lemma processWordsB_strips_parens:
  "(\<exists>ys. processWordsB (pre @ w # post) currentTime True =
      ys @ [\<lparr>kw_word = stripParens (b_text w)
                         @ (if b_hasSpaceAfter w \<and> post \<noteq> [] then ascii '' '' else []),
              kw_time = js_round ((b_end w - b_begin w) * 1000),
              kw_isBackground = True, kw_startTime = None\<rparr>]
         @ processWordsB post (b_end w) True) \<and>
   (\<exists>n m. b_text w = replicate n 0x28 @ stripParens (b_text w) @ replicate m 0x29) \<and>
   (stripParens (b_text w) \<noteq> [] \<longrightarrow>
      hd (stripParens (b_text w)) \<noteq> 0x28 \<and> last (stripParens (b_text w)) \<noteq> 0x29) \<and>
   stripParens (ascii ''(ooh)'') = ascii ''ooh'' \<and>
   map kw_word (backgroundWordsB lateBackgroundLineB) = [[], ascii ''ooh'']"
proof (intro conjI impI)
  obtain ys where ys: "processWordsB (pre @ w # post) currentTime True =
      ys @ processWordsB (w # post) (cursorAfterB currentTime pre) True"
    using processWordsB_append by blast
  obtain h where h: "processWordsB (w # post) (cursorAfterB currentTime pre) True =
      h @ [\<lparr>kw_word = stripParens (b_text w)
                         @ (if b_hasSpaceAfter w \<and> post \<noteq> [] then ascii '' '' else []),
              kw_time = js_round ((b_end w - b_begin w) * 1000),
              kw_isBackground = True, kw_startTime = None\<rparr>]
         @ processWordsB post (b_end w) True"
    by (simp add: Let_def)
  have "processWordsB (pre @ w # post) currentTime True =
      (ys @ h) @ [\<lparr>kw_word = stripParens (b_text w)
                         @ (if b_hasSpaceAfter w \<and> post \<noteq> [] then ascii '' '' else []),
              kw_time = js_round ((b_end w - b_begin w) * 1000),
              kw_isBackground = True, kw_startTime = None\<rparr>]
         @ processWordsB post (b_end w) True"
    using ys h by simp
  then show "\<exists>ys. processWordsB (pre @ w # post) currentTime True =
      ys @ [\<lparr>kw_word = stripParens (b_text w)
                         @ (if b_hasSpaceAfter w \<and> post \<noteq> [] then ascii '' '' else []),
              kw_time = js_round ((b_end w - b_begin w) * 1000),
              kw_isBackground = True, kw_startTime = None\<rparr>]
         @ processWordsB post (b_end w) True" ..
next
  show "\<exists>n m. b_text w = replicate n 0x28 @ stripParens (b_text w) @ replicate m 0x29"
    by (rule stripParens_decompose)
next
  assume "stripParens (b_text w) \<noteq> []"
  then show "hd (stripParens (b_text w)) \<noteq> 0x28" and "last (stripParens (b_text w)) \<noteq> 0x29"
    using stripParens_ends by blast+
next
  show "stripParens (ascii ''(ooh)'') = ascii ''ooh''"
    by (simp add: stripParens_def ascii_def)
next
  show "map kw_word (backgroundWordsB lateBackgroundLineB) = [[], ascii ''ooh'']"
    by (simp add: lateBackgroundLineB_def oohB_def backgroundWordsB_def lineStartTimeB_def
        stripParens_def ascii_def)
qed


text \<open>
  For every payload of shape B, the karaoke cues and the synced lines returned by
  \<open>convertToKaraokeFormat\<close> are ordered by non-decreasing \<open>startTime\<close>, whatever the order of
  the input lines, and they are the converted lines, each exactly once. \<open>parseJSON\<close> keeps
  the order of the payload's lines.
\<close>

lemma convertToKaraokeFormat_sorted:
  "sorted (map c_startTime (fst (convertToKaraokeFormat p))) \<and>
   sorted (map s_startTime (snd (convertToKaraokeFormat p))) \<and>
   mset (fst (convertToKaraokeFormat p)) = mset (map cueB (pb_lines p)) \<and>
   mset (snd (convertToKaraokeFormat p)) = mset (map syncedB (pb_lines p))"
  by (simp add: convertToKaraokeFormat_def)

lemma convertToKaraokeFormat_unordered_input:
  "map c_startTime (fst (convertToKaraokeFormat unorderedPayloadB)) = [0, 1000] \<and>
   map s_startTime (snd (convertToKaraokeFormat unorderedPayloadB)) = [0, 1000]"
  by (simp add: unorderedPayloadB_def heyLineB_def youLineB_def convertToKaraokeFormat_def
      cueB_def syncedB_def lineStartTimeB_def js_round_def)

lemma parseJSON_keeps_order:
  "pa_content q = Some content \<Longrightarrow> pa_type q \<noteq> Some (ascii ''None'') \<Longrightarrow>
   map c_startTime (p_karaoke (parseJSON q)) = map la_timestamp content \<and>
   map s_startTime (p_synced (parseJSON q)) = map la_timestamp content"
  by (simp add: parseJSON_def startTimes_A)

section \<open>The result invariant (C1)\<close>

text \<open>
  C1. The specification requires that \<open>error\<close> is set if and only if \<open>karaoke\<close>, \<open>synced\<close>
  and \<open>unsynced\<close> are all \<open>null\<close>, and that a payload that parses to no lines gives the
  "empty lyrics" error. ProviderApple does this (see \<open>findLyricsA_error_iff\<close> and
  \<open>findLyricsA_empty_lyrics\<close>). ProviderIanz56 does not test for empty arrays: when the
  index has a matching entry and the fetched payload has no lines, \<open>findLyrics\<close> returns a
  result whose three content fields are \<open>null\<close> and whose \<open>error\<close> is \<open>null\<close> as well, as
  evaluated here.
\<close>

theorem empty_payload_without_error:
  "r_error (findLyricsI E (servingI \<lparr>pb_lines = []\<rparr>) heyInfo) = None \<and>
   r_karaoke (findLyricsI E (servingI \<lparr>pb_lines = []\<rparr>) heyInfo) = None \<and>
   r_synced (findLyricsI E (servingI \<lparr>pb_lines = []\<rparr>) heyInfo) = None \<and>
   r_unsynced (findLyricsI E (servingI \<lparr>pb_lines = []\<rparr>) heyInfo) = None"
proof -
  have "tryBodyI E (servingI \<lparr>pb_lines = []\<rparr>) heyInfo = Inr (emptyResult heyInfo (ascii ''ianz56''))"
    by (simp add: tryBodyI_def servingI_simps findMatch_hey convertToKaraokeFormat_def
        emptyResult_def)
  then show ?thesis by (simp add: findLyricsI_def emptyResult_def)
qed


section \<open>Sum of the emitted durations (C2)\<close>





section \<open>The cursor of the background track (C3)\<close>





section \<open>Failures become error results (C4)\<close>




section \<open>Gap filling (C5)\<close>



section \<open>Parentheses around background words (C6)\<close>

text \<open>
  C6. The specification requires that the text of every background word is emitted with
  its leading and trailing run of parentheses stripped, for both payload shapes, so that
  the background word "(ooh)" is emitted as "ooh". \<open>processWords\<close> of
  \<open>convertToKaraokeFormat\<close> (shape B) does this (see \<open>processWordsB_strips_parens\<close>).
  \<open>processWords\<close> of \<open>parseJSON\<close> (shape A) takes the same \<open>isBackground\<close> flag but copies
  the text unchanged: the background word "(ooh)" of the line below is emitted as "(ooh)",
  after a spacer.
\<close>

theorem background_parens_kept_A:
  "map kw_word (backgroundWordsA lateBackgroundLineA) = [[], ascii ''(ooh)''] \<and>
   ascii ''ooh'' \<notin> set (map kw_word (backgroundWordsA lateBackgroundLineA))"
  by (simp add: lateBackgroundLineA_def oohA_def backgroundWordsA_def ascii_def)



section \<open>Order of the cues (C7)\<close>

text \<open>
  C7. The specification requires that, for either payload shape, the karaoke cues and the
  synced lines come out ordered by non-decreasing \<open>startTime\<close> even when the input lines
  are not in temporal order. \<open>convertToKaraokeFormat\<close> (shape B) sorts both arrays (see
  \<open>convertToKaraokeFormat_sorted\<close>). \<open>parseJSON\<close> (shape A) pushes the cues and the synced
  lines in the order of the payload's lines and never sorts them: for a payload that
  lists the line starting at 1000 ms before the line starting at 0 ms, both sequences come
  out in that order.
\<close>

theorem cue_order_unsorted_A:
  "map c_startTime (p_karaoke (parseJSON unorderedPayloadA)) = [1000, 0] \<and>
   \<not> sorted (map c_startTime (p_karaoke (parseJSON unorderedPayloadA))) \<and>
   map s_startTime (p_synced (parseJSON unorderedPayloadA)) = [1000, 0] \<and>
   \<not> sorted (map s_startTime (p_synced (parseJSON unorderedPayloadA)))"
  by (simp add: unorderedPayloadA_def heyLineA_def youLineA_def parseJSON_def cueA_def
      syncedA_def ascii_def)


section \<open>The title-fallback tier of findMatch (C8)\<close>

text \<open>
  C8. When neither the exact tier nor the partial tier finds an entry, \<open>findMatch\<close> returns
  the first entry that passes the title-fallback test: an entry whose normalized artist is
  empty matches when its normalized title equals the normalized query title or either
  title contains the other; an entry whose normalized artist is not empty matches exactly
  when the normalized titles are equal, and the artists are not compared. The entry with
  artist "" and title "Tanpa Cinta" is returned for the query title "Tanpa Cinta" whatever
  the query artist, and through the fallback tier whenever the query artist does not
  normalize to the empty string.
\<close>

theorem title_fallback_tier:
  "(find (exactMatch E (normalize_s E artist) (normalize_s E title)) index = None \<and>
    find (partialMatch E (normalize_s E artist) (normalize_s E title)) index = None \<longrightarrow>
      findMatch E artist title index = find (titleFallbackSpec E title) index) \<and>
   (normalize_s E (e_artist en) = [] \<longrightarrow>
      titleOnlyMatch E (normalize_s E title) en =
        (normalize_s E (e_title en) = normalize_s E title \<or>
         includes_s (normalize_s E (e_title en)) (normalize_s E title) \<or>
         includes_s (normalize_s E title) (normalize_s E (e_title en)))) \<and>
   (normalize_s E (e_artist en) \<noteq> [] \<longrightarrow>
      titleOnlyMatch E (normalize_s E title) en = (normalize_s E (e_title en) = normalize_s E title)) \<and>
   findMatch E artist (ascii ''Tanpa Cinta'') [tanpaCintaNoArtist] = Some tanpaCintaNoArtist \<and>
   (normalize_s E artist \<noteq> [] \<longrightarrow>
      find (exactMatch E (normalize_s E artist) (normalize_s E (ascii ''Tanpa Cinta'')))
        [tanpaCintaNoArtist] = None \<and>
      find (partialMatch E (normalize_s E artist) (normalize_s E (ascii ''Tanpa Cinta'')))
        [tanpaCintaNoArtist] = None)"
proof (intro conjI impI)
  assume "find (exactMatch E (normalize_s E artist) (normalize_s E title)) index = None \<and>
    find (partialMatch E (normalize_s E artist) (normalize_s E title)) index = None"
  then show "findMatch E artist title index = find (titleFallbackSpec E title) index"
    by (simp add: findMatch_fallback)
next
  assume "normalize_s E (e_artist en) = []"
  then show "titleOnlyMatch E (normalize_s E title) en =
        (normalize_s E (e_title en) = normalize_s E title \<or>
         includes_s (normalize_s E (e_title en)) (normalize_s E title) \<or>
         includes_s (normalize_s E title) (normalize_s E (e_title en)))"
    by (simp add: titleOnlyMatch_def Let_def)
next
  assume "normalize_s E (e_artist en) \<noteq> []"
  then show "titleOnlyMatch E (normalize_s E title) en
      = (normalize_s E (e_title en) = normalize_s E title)"
    by (simp add: titleOnlyMatch_def Let_def)
next
  have "e_artist tanpaCintaNoArtist = []" "e_title tanpaCintaNoArtist = ascii ''Tanpa Cinta''"
    by (simp_all add: tanpaCintaNoArtist_def)
  with findMatch_no_artist_entry [of tanpaCintaNoArtist E artist]
  show "findMatch E artist (ascii ''Tanpa Cinta'') [tanpaCintaNoArtist] = Some tanpaCintaNoArtist"
    by simp
next
  assume ne: "normalize_s E artist \<noteq> []"
  have a: "normalize_s E (e_artist tanpaCintaNoArtist) = []"
    by (simp add: tanpaCintaNoArtist_def normalize_s_def)
  from ne a show "find (exactMatch E (normalize_s E artist) (normalize_s E (ascii ''Tanpa Cinta'')))
        [tanpaCintaNoArtist] = None"
    by (auto simp: exactMatch_def Let_def)
  from a show "find (partialMatch E (normalize_s E artist) (normalize_s E (ascii ''Tanpa Cinta'')))
        [tanpaCintaNoArtist] = None"
    by (simp add: partialMatch_def Let_def)
qed

theorem title_fallback_tier_witness:
  "find (exactMatch latin1Engine (normalize_s latin1Engine (ascii ''Yovie''))
          (normalize_s latin1Engine (ascii ''Tanpa Cinta''))) [tanpaCintaTiara] = None \<and>
   find (partialMatch latin1Engine (normalize_s latin1Engine (ascii ''Yovie''))
          (normalize_s latin1Engine (ascii ''Tanpa Cinta''))) [tanpaCintaTiara] = None \<and>
   normalize_s latin1Engine (e_artist tanpaCintaTiara) \<noteq> [] \<and>
   normalize_s latin1Engine (e_artist tanpaCintaNoArtist) = [] \<and>
   normalize_s latin1Engine (ascii ''Yovie'') \<noteq> [] \<and>
   titleOnlyMatch latin1Engine (normalize_s latin1Engine (ascii ''Tanpa Cinta'')) tanpaCintaTiara \<and>
   titleOnlyMatch latin1Engine (normalize_s latin1Engine (ascii ''Tanpa Cinta'')) tanpaCintaNoArtist \<and>
   findMatch latin1Engine (ascii ''Yovie'') (ascii ''Tanpa Cinta'') [tanpaCintaTiara]
     = Some tanpaCintaTiara \<and>
   findMatch latin1Engine (ascii ''Yovie'') (ascii ''Tanpa Cinta'') [tanpaCintaNoArtist]
     = Some tanpaCintaNoArtist \<and>
   find (exactMatch latin1Engine (normalize_s latin1Engine (ascii ''Yovie''))
          (normalize_s latin1Engine (ascii ''Tanpa Cinta''))) [tanpaCintaNoArtist] = None \<and>
   find (partialMatch latin1Engine (normalize_s latin1Engine (ascii ''Yovie''))
          (normalize_s latin1Engine (ascii ''Tanpa Cinta''))) [tanpaCintaNoArtist] = None"
proof -
  let ?E = latin1Engine
  have f: "e_artist tanpaCintaTiara = ascii ''Tiara''" "e_title tanpaCintaTiara = ascii ''Tanpa Cinta''"
    "e_artist tanpaCintaNoArtist = []" "e_title tanpaCintaNoArtist = ascii ''Tanpa Cinta''"
    by (simp_all add: tanpaCintaTiara_def tanpaCintaNoArtist_def)
  have "\<not> exactMatch ?E (normalize_s ?E (ascii ''Yovie''))
          (normalize_s ?E (ascii ''Tanpa Cinta'')) tanpaCintaTiara"
    unfolding exactMatch_def Let_def f normalize_tanpa by (simp add: ascii_def)
  then have h1: "find (exactMatch ?E (normalize_s ?E (ascii ''Yovie''))
          (normalize_s ?E (ascii ''Tanpa Cinta''))) [tanpaCintaTiara] = None"
    by simp
  have "\<not> partialMatch ?E (normalize_s ?E (ascii ''Yovie''))
          (normalize_s ?E (ascii ''Tanpa Cinta'')) tanpaCintaTiara"
    unfolding partialMatch_def Let_def f normalize_tanpa by (simp add: ascii_def)
  then have h2: "find (partialMatch ?E (normalize_s ?E (ascii ''Yovie''))
          (normalize_s ?E (ascii ''Tanpa Cinta''))) [tanpaCintaTiara] = None"
    by simp
  have h3: "normalize_s ?E (e_artist tanpaCintaTiara) \<noteq> []"
    unfolding f normalize_tanpa by (simp add: ascii_def)
  have h4: "normalize_s ?E (e_artist tanpaCintaNoArtist) = []"
    by (simp add: f normalize_s_def)
  have h5: "normalize_s ?E (ascii ''Yovie'') \<noteq> []"
    unfolding normalize_tanpa by (simp add: ascii_def)
  have eq: "normalize_s ?E (e_title tanpaCintaTiara) = normalize_s ?E (ascii ''Tanpa Cinta'')"
    "normalize_s ?E (e_title tanpaCintaNoArtist) = normalize_s ?E (ascii ''Tanpa Cinta'')"
    by (simp_all add: f)
  note t1 = title_fallback_tier [where E = ?E and artist = "ascii ''Yovie''"
      and title = "ascii ''Tanpa Cinta''" and index = "[tanpaCintaTiara]" and en = tanpaCintaTiara]
  note t2 = title_fallback_tier [where E = ?E and artist = "ascii ''Yovie''"
      and title = "ascii ''Tanpa Cinta''" and index = "[tanpaCintaNoArtist]"
      and en = tanpaCintaNoArtist]
  from t1 h3 eq(1) have m1: "titleOnlyMatch ?E (normalize_s ?E (ascii ''Tanpa Cinta'')) tanpaCintaTiara"
    by blast
  from t2 h4 eq(2) have m2: "titleOnlyMatch ?E (normalize_s ?E (ascii ''Tanpa Cinta'')) tanpaCintaNoArtist"
    by blast
  from t1 h1 h2 have "findMatch ?E (ascii ''Yovie'') (ascii ''Tanpa Cinta'') [tanpaCintaTiara]
      = find (titleFallbackSpec ?E (ascii ''Tanpa Cinta'')) [tanpaCintaTiara]"
    by blast
  with h3 eq(1) have r1: "findMatch ?E (ascii ''Yovie'') (ascii ''Tanpa Cinta'') [tanpaCintaTiara]
      = Some tanpaCintaTiara"
    by (simp add: titleFallbackSpec_def)
  from t2 have r2: "findMatch ?E (ascii ''Yovie'') (ascii ''Tanpa Cinta'') [tanpaCintaNoArtist]
      = Some tanpaCintaNoArtist"
    by blast
  from t2 h5 have n: "find (exactMatch ?E (normalize_s ?E (ascii ''Yovie''))
          (normalize_s ?E (ascii ''Tanpa Cinta''))) [tanpaCintaNoArtist] = None \<and>
      find (partialMatch ?E (normalize_s ?E (ascii ''Yovie''))
          (normalize_s ?E (ascii ''Tanpa Cinta''))) [tanpaCintaNoArtist] = None"
    by blast
  from h1 h2 h3 h4 h5 m1 m2 r1 r2 n show ?thesis by blast
qed

section \<open>normalize is idempotent (C9)\<close>

text \<open>
  C9. For every string \<open>s\<close>, \<open>normalize(normalize(s)) = normalize(s)\<close>: for every engine whose
  \<open>toLowerCase\<close> and \<open>normalize("NFD")\<close> leave no ASCII capital letter behind and do not change
  plain lower-case ASCII text, as ECMAScript's do; in particular for the functions on the
  range U+0000 to U+00FF. And \<open>normalize\<close> ignores case and diacritics:
  \<open>normalize("Caf\'e")\<close>, with the e-acute U+00E9, equals \<open>normalize("CAFE")\<close>.
\<close>

theorem normalize_idempotent:
  "(lowercasesAscii E \<and> fixesPlainAscii E \<longrightarrow>
      normalize_s E (normalize_s E s) = normalize_s E s) \<and>
   normalize_s latin1Engine (normalize_s latin1Engine s) = normalize_s latin1Engine s \<and>
   normalize_s latin1Engine (ascii ''Caf'' @ [0xE9]) = normalize_s latin1Engine (ascii ''CAFE'')"
proof (intro conjI impI)
  assume "lowercasesAscii E \<and> fixesPlainAscii E"
  then show "normalize_s E (normalize_s E s) = normalize_s E s"
    by (simp add: normalize_s_idem)
next
  show "normalize_s latin1Engine (normalize_s latin1Engine s) = normalize_s latin1Engine s"
    by (rule normalize_s_idem [OF latin1Engine_lowercasesAscii latin1Engine_fixesPlainAscii])
next
  show "normalize_s latin1Engine (ascii ''Caf'' @ [0xE9]) = normalize_s latin1Engine (ascii ''CAFE'')"
    by (simp only: normalize_cafe)
qed

theorem normalize_idempotent_witness:
  "lowercasesAscii latin1Engine \<and> fixesPlainAscii latin1Engine \<and>
   normalize_s latin1Engine (ascii ''Caf'' @ [0xE9]) = ascii ''cafe'' \<and>
   normalize_s latin1Engine (normalize_s latin1Engine (ascii ''Caf'' @ [0xE9])) = ascii ''cafe''"
proof -
  note h = latin1Engine_lowercasesAscii latin1Engine_fixesPlainAscii
  from normalize_idempotent [where E = latin1Engine and s = "ascii ''Caf'' @ [0xE9]"] h
  have "normalize_s latin1Engine (normalize_s latin1Engine (ascii ''Caf'' @ [0xE9]))
      = normalize_s latin1Engine (ascii ''Caf'' @ [0xE9])"
    by blast
  with h normalize_cafe(1) show ?thesis by simp
qed

section \<open>Payloads of type "None" (C10)\<close>



end
